theory Spec2Isabelle
  imports Main "HOL-Library.Sublist"
begin

section \<open>Python string primitives used by opennb.py\<close>

text \<open>
  Strings are \<open>string\<close> (lists of characters). Only the string methods that
  \<^verbatim>\<open>opennb.py\<close> calls are modelled, each with a single-character separator as in
  the source.
\<close>

text \<open>\<^verbatim>\<open>s.split(c, 1)\<close>: split at the first occurrence of \<open>c\<close> only; a string without
  \<open>c\<close> gives the one-element list.\<close>

definition split1 :: "char \<Rightarrow> string \<Rightarrow> string list" where
  "split1 c s =
     (if c \<in> set s
      then [takeWhile (\<lambda>x. x \<noteq> c) s, tl (dropWhile (\<lambda>x. x \<noteq> c) s)]
      else [s])"

text \<open>\<^verbatim>\<open>s.split(c)\<close>: split at every occurrence of \<open>c\<close>; \<open>n\<close> occurrences give
  \<open>n + 1\<close> pieces, empty pieces included.\<close>

function split_all :: "char \<Rightarrow> string \<Rightarrow> string list" where
  "split_all c s =
     (if c \<in> set s
      then takeWhile (\<lambda>x. x \<noteq> c) s # split_all c (tl (dropWhile (\<lambda>x. x \<noteq> c) s))
      else [s])"
  by pat_completeness auto
termination
proof (relation "measure (\<lambda>(c, s). length s)")
  show "wf (measure (\<lambda>(c, s). length s))" by simp
next
  fix c :: char and s :: string
  assume "c \<in> set s"
  then have "dropWhile (\<lambda>x. x \<noteq> c) s \<noteq> []" by auto
  then have "length (tl (dropWhile (\<lambda>x. x \<noteq> c) s)) < length (dropWhile (\<lambda>x. x \<noteq> c) s)"
    by (cases "dropWhile (\<lambda>x. x \<noteq> c) s") simp_all
  also have "\<dots> \<le> length s" by (rule length_dropWhile_le)
  finally show "((c, tl (dropWhile (\<lambda>x. x \<noteq> c) s)), (c, s)) \<in> measure (\<lambda>(c, s). length s)"
    by simp
qed

declare split_all.simps [simp del]

text \<open>\<^verbatim>\<open>s.strip(c)\<close>: drop every leading and every trailing \<open>c\<close>.\<close>

definition strip :: "char \<Rightarrow> string \<Rightarrow> string" where
  "strip c s = rev (dropWhile (\<lambda>x. x = c) (rev (dropWhile (\<lambda>x. x = c) s)))"

text \<open>\<^verbatim>\<open>s.endswith(t)\<close> and \<^verbatim>\<open>s.startswith(t)\<close>.\<close>

definition endswith :: "string \<Rightarrow> string \<Rightarrow> bool" where
  "endswith s t = suffix t s"

definition startswith :: "string \<Rightarrow> string \<Rightarrow> bool" where
  "startswith s t = prefix t s"

section \<open>Exceptions, the environment and the trace of external calls\<close>

text \<open>
  A raised exception is a value. \<open>ValueError\<close> carries its message, \<open>HTTPError\<close> its
  status code and reason, \<open>KeyError\<close> the missing key, \<open>CalledProcessError\<close> the exit
  code and the command; \<open>OtherError\<close> stands for any other exception that the library
  calls may raise (a \<open>URLError\<close>, a JSON decoding error, an \<open>OSError\<close>).
\<close>

datatype exn =
    ValueError string
  | HTTPError int string
  | KeyError string
  | CalledProcessError int "string list"
  | OtherError string

text \<open>
  A path of \<^verbatim>\<open>pathlib\<close> (POSIX flavour): its root (\<open>''''\<close>, \<open>''/''\<close> or \<open>''//''\<close>) and
  its components.
\<close>

record ppath =
  root :: string
  parts :: "string list"

text \<open>
  The external collaborators of the program, as the functions it calls:
  \<^item> \<open>urlopen_json u\<close> is \<^verbatim>\<open>json.loads(urlopen(u).read())\<close> of lines 27-28: the
    decoded JSON object (its string-valued fields), or the exception that the request,
    the read or the decoding raised;
  \<^item> \<open>urlretrieve u p\<close> is the download of \<open>u\<close> to the file \<open>p\<close>: \<open>None\<close> when it
    returns, \<open>Some e\<close> when it raises \<open>e\<close>;
  \<^item> \<open>run cmd\<close> is the child process: its exit code, or the exception raised when it
    cannot be started;
  \<^item> \<open>cwd\<close> is \<^verbatim>\<open>Path.cwd()\<close>;
  \<^item> \<open>netloc_check\<close> is the validation that \<^verbatim>\<open>urlparse\<close> applies to a bracketed or
    non-ASCII authority: \<open>None\<close> when it passes, \<open>Some e\<close> when it raises \<open>e\<close>.
\<close>

record env =
  urlopen_json :: "string \<Rightarrow> exn + (string \<rightharpoonup> string)"
  urlretrieve :: "string \<Rightarrow> ppath \<Rightarrow> exn option"
  run :: "string list \<Rightarrow> exn + int"
  cwd :: ppath
  netloc_check :: "string \<Rightarrow> exn option"

text \<open>
  Every external call and every printed line is appended to a trace, so that "called
  exactly once" and "never called" are statements about the trace.
\<close>

datatype event =
    ApiGet string
  | Print string
  | Retrieve string ppath
  | Run "string list"

type_synonym 'a result = "(exn + 'a) \<times> event list"

section \<open>Default branch lookup (opennb.py, lines 11-33)\<close>

text \<open>
  The \<^verbatim>\<open>try\<close> block requests the repository metadata and reads
  \<^verbatim>\<open>data["default_branch"]\<close>, which raises \<open>KeyError\<close> when the field is missing. The
  handler catches \<open>HTTPError\<close> only: code 404 becomes a \<open>ValueError\<close> naming the
  repository, any other \<open>HTTPError\<close> is raised again, and every other exception passes
  through.
\<close>

definition get_default_branch :: "env \<Rightarrow> string \<Rightarrow> string \<Rightarrow> event list \<Rightarrow> string result" where
  "get_default_branch env owner repo tr =
     (let url = ''https://api.github.com/repos/'' @ owner @ ''/'' @ repo;
          tr' = tr @ [ApiGet url];
          body = (case urlopen_json env url of
                    Inl e \<Rightarrow> Inl e
                  | Inr data \<Rightarrow>
                      (case data ''default_branch'' of
                         None \<Rightarrow> Inl (KeyError ''default_branch'')
                       | Some b \<Rightarrow> Inr b))
      in case body of
           Inr b \<Rightarrow> (Inr b, tr')
         | Inl e \<Rightarrow>
             (case e of
                HTTPError code msg \<Rightarrow>
                  (if code = 404
                   then (Inl (ValueError (''Repository '' @ owner @ ''/'' @ repo @ '' not found'')), tr')
                   else (Inl e, tr'))
              | _ \<Rightarrow> (Inl e, tr')))"

section \<open>Shorthand resolver (opennb.py, lines 36-87)\<close>

text \<open>
  The steps of \<^verbatim>\<open>_convert_github_path_to_raw_url\<close> in the order of the source: split on
  the first \<open>#\<close> (lines 55-57); split the repository part on the first \<open>@\<close> (lines
  60-64); strip and split the owner/repository part on every \<open>/\<close> and require two
  pieces (lines 67-70); look the default branch up when none was given (lines 73-74);
  without a file path, split the branch on its first \<open>/\<close> (lines 77-82); check the
  suffix (lines 84-85); build the URL (line 87). The list accesses are in range by
  construction: \<open>split1\<close> returns two pieces exactly when the separator occurs.
\<close>

definition convert_github_path_to_raw_url :: "env \<Rightarrow> string \<Rightarrow> event list \<Rightarrow> string result" where
  "convert_github_path_to_raw_url env path tr =
     (let parts = split1 CHR ''#'' path;
          repo_part = parts ! 0;
          file_path = (if length parts > 1 then Some (parts ! 1) else None);
          (repo_info, branch) =
             (if CHR ''@'' \<in> set repo_part
              then (split1 CHR ''@'' repo_part ! 0, Some (split1 CHR ''@'' repo_part ! 1))
              else (repo_part, None));
          repo_parts = split_all CHR ''/'' (strip CHR ''/'' repo_info)
      in if length repo_parts \<noteq> 2
         then (Inl (ValueError ''Repository path must be in format: owner/repository''), tr)
         else
           let owner = repo_parts ! 0;
               repo = repo_parts ! 1;
               (looked, tr1) =
                  (case branch of
                     None \<Rightarrow> get_default_branch env owner repo tr
                   | Some b \<Rightarrow> (Inr b, tr))
           in case looked of
                Inl e \<Rightarrow> (Inl e, tr1)
              | Inr branch1 \<Rightarrow>
                  (case (case file_path of
                           None \<Rightarrow>
                             (if CHR ''/'' \<notin> set branch1
                              then Inl (ValueError ''No file path specified'')
                              else Inr (split1 CHR ''/'' branch1 ! 0, split1 CHR ''/'' branch1 ! 1))
                         | Some file_path1 \<Rightarrow> Inr (branch1, file_path1)) of
                     Inl e \<Rightarrow> (Inl e, tr1)
                   | Inr (branch2, file_path2) \<Rightarrow>
                       (if \<not> endswith file_path2 ''.ipynb''
                        then (Inl (ValueError ''Path must end with .ipynb''), tr1)
                        else (Inr (''https://raw.githubusercontent.com/'' @ owner @ ''/'' @ repo
                                   @ ''/'' @ branch2 @ ''/'' @ file_path2), tr1))))"

section \<open>Library functions called by the orchestrator\<close>

subsection \<open>The path component of a URL (urllib.parse.urlparse)\<close>

text \<open>
  \<^verbatim>\<open>urlparse(url).path\<close> as CPython computes it: leading C0 control characters and
  spaces are stripped and every tab, carriage return and line feed is removed; a scheme
  is split off at the first \<open>:\<close> when what precedes it starts with an ASCII letter and
  consists of letters, digits, \<open>+\<close>, \<open>-\<close> and \<open>.\<close>; after \<open>//\<close> the authority runs up
  to the first \<open>/\<close>, \<open>?\<close> or \<open>#\<close>; the fragment is cut at the first \<open>#\<close>, the query at
  the first \<open>?\<close>; and for the schemes that use parameters the last path segment is cut at
  its first \<open>;\<close>.
\<close>

definition lstrip_c0 :: "string \<Rightarrow> string" where
  "lstrip_c0 s = dropWhile (\<lambda>c. (of_char c :: nat) \<le> 32) s"

definition remove_unsafe :: "string \<Rightarrow> string" where
  "remove_unsafe s = filter (\<lambda>c. c \<noteq> CHR 0x09 \<and> c \<noteq> CHR 0x0D \<and> c \<noteq> CHR 0x0A) s"

definition ascii_alpha :: "char \<Rightarrow> bool" where
  "ascii_alpha c =
     (let n = (of_char c :: nat) in (65 \<le> n \<and> n \<le> 90) \<or> (97 \<le> n \<and> n \<le> 122))"

definition scheme_char :: "char \<Rightarrow> bool" where
  "scheme_char c =
     (ascii_alpha c \<or> (48 \<le> (of_char c :: nat) \<and> (of_char c :: nat) \<le> 57)
      \<or> c = CHR ''+'' \<or> c = CHR ''-'' \<or> c = CHR ''.'')"

definition lower_char :: "char \<Rightarrow> char" where
  "lower_char c =
     (let n = (of_char c :: nat) in if 65 \<le> n \<and> n \<le> 90 then char_of (n + 32) else c)"

definition split_scheme :: "string \<Rightarrow> string \<times> string" where
  "split_scheme url =
     (let i = length (takeWhile (\<lambda>x. x \<noteq> CHR '':'') url)
      in if CHR '':'' \<in> set url \<and> 0 < i \<and> ascii_alpha (url ! 0)
            \<and> list_all scheme_char (take i url)
         then (map lower_char (take i url), drop (i + 1) url)
         else ([], url))"

definition netloc_delim :: "char \<Rightarrow> bool" where
  "netloc_delim c = (c = CHR ''/'' \<or> c = CHR ''?'' \<or> c = CHR ''#'')"

definition split_netloc :: "string \<Rightarrow> string \<times> string" where
  "split_netloc url =
     (if take 2 url = ''//''
      then (takeWhile (\<lambda>c. \<not> netloc_delim c) (drop 2 url),
            dropWhile (\<lambda>c. \<not> netloc_delim c) (drop 2 url))
      else ([], url))"

definition uses_params :: "string list" where
  "uses_params =
     ['''', ''ftp'', ''hdl'', ''prospero'', ''http'', ''imap'', ''https'', ''shttp'',
      ''rtsp'', ''rtsps'', ''rtspu'', ''sip'', ''sips'', ''mms'', ''sftp'', ''tel'']"

text \<open>\<^verbatim>\<open>_splitparams(url)[0]\<close>: the search for \<open>;\<close> starts at the last \<open>/\<close>.\<close>

definition splitparams :: "string \<Rightarrow> string" where
  "splitparams url =
     (if CHR ''/'' \<in> set url
      then (let k = length url - Suc (length (takeWhile (\<lambda>x. x \<noteq> CHR ''/'') (rev url)));
                seg = drop k url
            in if CHR '';'' \<in> set seg
               then take (k + length (takeWhile (\<lambda>x. x \<noteq> CHR '';'') seg)) url
               else url)
      else takeWhile (\<lambda>x. x \<noteq> CHR '';'') url)"

text \<open>
  The library validates an authority that holds a bracketed host literal or a non-ASCII
  character (the IP literal, the NFKC check) and raises \<open>ValueError\<close> when it is
  invalid; that validation is the parameter \<open>check\<close>, consulted for such authorities
  only. Unbalanced brackets are refused by \<open>urlsplit\<close> itself.
\<close>

definition urlparse_path :: "(string \<Rightarrow> exn option) \<Rightarrow> string \<Rightarrow> exn + string" where
  "urlparse_path check url0 =
     (let url1 = remove_unsafe (lstrip_c0 url0);
          (scheme, url2) = split_scheme url1;
          (netloc, url3) = split_netloc url2
      in if (CHR ''['' \<in> set netloc \<and> CHR '']'' \<notin> set netloc)
            \<or> (CHR '']'' \<in> set netloc \<and> CHR ''['' \<notin> set netloc)
         then Inl (ValueError ''Invalid IPv6 URL'')
         else
           (case (if CHR ''['' \<in> set netloc
                     \<or> \<not> list_all (\<lambda>c. (of_char c :: nat) < 128) netloc
                  then check netloc else None) of
              Some e \<Rightarrow> Inl e
            | None \<Rightarrow>
                (let url4 = (if CHR ''#'' \<in> set url3 then split1 CHR ''#'' url3 ! 0 else url3);
                     url5 = (if CHR ''?'' \<in> set url4 then split1 CHR ''?'' url4 ! 0 else url4)
                 in Inr (if scheme \<in> set uses_params \<and> CHR '';'' \<in> set url5
                         then splitparams url5 else url5))))"

subsection \<open>Paths (pathlib, POSIX flavour)\<close>

text \<open>
  \<^verbatim>\<open>Path(s)\<close> keeps the root (exactly two leading slashes are kept as \<open>//\<close>, any other
  number gives \<open>/\<close>) and the components of \<open>s\<close> that are neither empty nor \<open>.\<close>;
  \<^verbatim>\<open>p.name\<close> is the last component, or the empty string when there is none;
  \<^verbatim>\<open>p / key\<close> is \<open>key\<close> when \<open>key\<close> is absolute and otherwise appends its components;
  \<^verbatim>\<open>str(p)\<close> joins the components with \<open>/\<close> after the root, and is \<open>.\<close> for the empty
  path.
\<close>

definition Path :: "string \<Rightarrow> ppath" where
  "Path s =
     \<lparr>root = (let k = length (takeWhile (\<lambda>x. x = CHR ''/'') s)
              in if k = 0 then [] else if k = 2 then ''//'' else ''/''),
      parts = filter (\<lambda>p. p \<noteq> [] \<and> p \<noteq> ''.'') (split_all CHR ''/'' s)\<rparr>"

definition path_name :: "ppath \<Rightarrow> string" where
  "path_name p = (if parts p = [] then [] else last (parts p))"

definition joinpath :: "ppath \<Rightarrow> string \<Rightarrow> ppath" where
  "joinpath p key =
     (if root (Path key) \<noteq> [] then Path key
      else \<lparr>root = root p, parts = parts p @ parts (Path key)\<rparr>)"

fun join_with :: "string \<Rightarrow> string list \<Rightarrow> string" where
  "join_with sep [] = []"
| "join_with sep [x] = x"
| "join_with sep (x # y # ys) = x @ sep @ join_with sep (y # ys)"

definition path_str :: "ppath \<Rightarrow> string" where
  "path_str p =
     (if root p = [] \<and> parts p = [] then ''.'' else root p @ join_with ''/'' (parts p))"

section \<open>Fetch-and-launch orchestrator (opennb.py, lines 90-132)\<close>

text \<open>
  \<^verbatim>\<open>open_notebook_from_url\<close>: a reference without an http or https prefix goes through
  the resolver (lines 109-110); the filename is the name of the URL's path and must end
  in \<open>.ipynb\<close> (lines 113-115); the target is the output directory, or the current
  directory when none is given, joined with the filename (lines 118-119); the download
  (lines 122-123); the command with the pass-through arguments appended (lines 126-128);
  the child process, whose non-zero exit code raises (lines 131-132).
\<close>

definition open_notebook_from_url ::
  "env \<Rightarrow> string \<Rightarrow> ppath option \<Rightarrow> string list option \<Rightarrow> event list \<Rightarrow> unit result" where
  "open_notebook_from_url env url output_dir jupyter_args tr =
     (let (resolved, tr1) =
             (if \<not> (startswith url ''http://'' \<or> startswith url ''https://'')
              then convert_github_path_to_raw_url env url tr
              else (Inr url, tr))
      in case resolved of
           Inl e \<Rightarrow> (Inl e, tr1)
         | Inr url1 \<Rightarrow>
             (case urlparse_path (netloc_check env) url1 of
                Inl e \<Rightarrow> (Inl e, tr1)
              | Inr p \<Rightarrow>
                  (let filename = path_name (Path p)
                   in if \<not> endswith filename ''.ipynb''
                      then (Inl (ValueError ''URL must point to a Jupyter notebook (.ipynb file)''), tr1)
                      else
                        let output_dir1 = (case output_dir of None \<Rightarrow> cwd env | Some d \<Rightarrow> d);
                            output_path = joinpath output_dir1 filename;
                            tr2 = tr1 @ [Print (''Downloading notebook from '' @ url1),
                                         Retrieve url1 output_path]
                        in case urlretrieve env url1 output_path of
                             Some e \<Rightarrow> (Inl e, tr2)
                           | None \<Rightarrow>
                               (let cmd = [''jupyter'', ''notebook'', path_str output_path]
                                          @ (case jupyter_args of None \<Rightarrow> [] | Some a \<Rightarrow> a);
                                    tr3 = tr2 @ [Print (''Opening notebook '' @ path_str output_path),
                                                 Run cmd]
                                in case run env cmd of
                                     Inl e \<Rightarrow> (Inl e, tr3)
                                   | Inr code \<Rightarrow>
                                       (if code \<noteq> 0
                                        then (Inl (CalledProcessError code cmd), tr3)
                                        else (Inr (), tr3))))))"

section \<open>Concrete environments\<close>

text \<open>
  Environments for evaluating the program: the metadata endpoint answers with the
  default branch \<open>main\<close>, with status 404, or with status 500. Downloads and the child
  process succeed, and the current directory is \<open>/home/user\<close>; in \<open>env_offline\<close> every
  download fails, and in \<open>env_release\<close> the default branch is \<open>release/1.0\<close>.
\<close>

definition env_main :: env where
  "env_main =
     \<lparr>urlopen_json = (\<lambda>u. Inr [''default_branch'' \<mapsto> ''main'']),
      urlretrieve = (\<lambda>u p. None),
      run = (\<lambda>cmd. Inr 0),
      cwd = \<lparr>root = ''/'', parts = [''home'', ''user'']\<rparr>,
      netloc_check = (\<lambda>n. None)\<rparr>"

definition env_404 :: env where
  "env_404 = env_main\<lparr>urlopen_json := (\<lambda>u. Inl (HTTPError 404 ''Not Found''))\<rparr>"

definition env_500 :: env where
  "env_500 = env_main\<lparr>urlopen_json := (\<lambda>u. Inl (HTTPError 500 ''Server Error''))\<rparr>"

definition env_offline :: env where
  "env_offline = env_main\<lparr>urlretrieve := (\<lambda>u p. Some (OtherError ''URLError''))\<rparr>"

definition env_release :: env where
  "env_release = env_main\<lparr>urlopen_json := (\<lambda>u. Inr [''default_branch'' \<mapsto> ''release/1.0''])\<rparr>"

section \<open>Facts about the string primitives\<close>

lemma split1_absent: "c \<notin> set s \<Longrightarrow> split1 c s = [s]"
  by (simp add: split1_def)

lemma takeWhile_first: "c \<notin> set a \<Longrightarrow> takeWhile (\<lambda>x. x \<noteq> c) (a @ c # b) = a"
  by (induction a) auto

lemma dropWhile_first: "c \<notin> set a \<Longrightarrow> dropWhile (\<lambda>x. x \<noteq> c) (a @ c # b) = c # b"
  by (induction a) auto

lemma split1_first: "c \<notin> set a \<Longrightarrow> split1 c (a @ c # b) = [a, b]"
  by (simp add: split1_def takeWhile_first dropWhile_first)

lemma split_all_absent: "c \<notin> set s \<Longrightarrow> split_all c s = [s]"
  by (simp add: split_all.simps)

lemma split_all_first: "c \<notin> set a \<Longrightarrow> split_all c (a @ c # b) = a # split_all c b"
  by (subst split_all.simps) (simp add: takeWhile_first dropWhile_first)

lemma strip_unchanged:
  assumes "s \<noteq> []" and "hd s \<noteq> c" and "last s \<noteq> c"
  shows "strip c s = s"
proof -
  from assms have "dropWhile (\<lambda>x. x = c) s = s"
    by (cases s) simp_all
  moreover from assms have "dropWhile (\<lambda>x. x = c) (rev s) = rev s"
    by (cases "rev s") (simp_all add: last_rev [symmetric] hd_rev)
  ultimately show ?thesis by (simp add: strip_def)
qed

lemma repo_parts_of_owner_repo:
  assumes "owner \<noteq> []" and "repo \<noteq> []"
    and "CHR ''/'' \<notin> set owner" and "CHR ''/'' \<notin> set repo"
  shows "split_all CHR ''/'' (strip CHR ''/'' (owner @ ''/'' @ repo)) = [owner, repo]"
proof -
  from assms have "hd owner \<noteq> CHR ''/''" and "last repo \<noteq> CHR ''/''"
    by (metis hd_in_set, metis last_in_set)
  with assms have "strip CHR ''/'' (owner @ ''/'' @ repo) = owner @ ''/'' @ repo"
    by (intro strip_unchanged) simp_all
  moreover from assms have "split_all CHR ''/'' (owner @ CHR ''/'' # repo) = [owner, repo]"
    by (simp add: split_all_first split_all_absent)
  ultimately show ?thesis by simp
qed

text \<open>The defining equations that evaluate the library functions on a concrete URL or path.\<close>

lemmas urlparse_eval =
  urlparse_path_def remove_unsafe_def lstrip_c0_def split_scheme_def split_netloc_def
  netloc_delim_def ascii_alpha_def scheme_char_def lower_char_def uses_params_def
  splitparams_def split1_def

lemmas path_eval =
  Path_def path_name_def joinpath_def path_str_def split_all.simps

section \<open>The resolver on each form of shorthand\<close>

text \<open>
  With an explicit branch and an explicit file path, \<open>owner/repo@branch#file_path\<close>: no
  lookup is made, and the result depends on the suffix of the file path alone.
\<close>

lemma convert_branch_and_path:
  assumes "owner \<noteq> []" and "repo \<noteq> []"
    and "CHR ''/'' \<notin> set owner" and "CHR ''@'' \<notin> set owner" and "CHR ''#'' \<notin> set owner"
    and "CHR ''/'' \<notin> set repo" and "CHR ''@'' \<notin> set repo" and "CHR ''#'' \<notin> set repo"
    and "CHR ''#'' \<notin> set branch"
  shows "convert_github_path_to_raw_url env
           (owner @ ''/'' @ repo @ ''@'' @ branch @ ''#'' @ file_path) tr =
         (if endswith file_path ''.ipynb''
          then (Inr (''https://raw.githubusercontent.com/'' @ owner @ ''/'' @ repo @ ''/''
                     @ branch @ ''/'' @ file_path), tr)
          else (Inl (ValueError ''Path must end with .ipynb''), tr))"
proof -
  let ?info = "owner @ ''/'' @ repo"
  let ?rp = "?info @ ''@'' @ branch"
  have path: "owner @ ''/'' @ repo @ ''@'' @ branch @ ''#'' @ file_path = ?rp @ CHR ''#'' # file_path"
    by simp
  have hash: "split1 CHR ''#'' (?rp @ CHR ''#'' # file_path) = [?rp, file_path]"
    using assms by (intro split1_first) simp
  have at_in: "CHR ''@'' \<in> set ?rp" by simp
  have "split1 CHR ''@'' (?info @ CHR ''@'' # branch) = [?info, branch]"
    using assms by (intro split1_first) simp
  then have at: "split1 CHR ''@'' ?rp = [?info, branch]" by simp
  have rp: "split_all CHR ''/'' (strip CHR ''/'' ?info) = [owner, repo]"
    using assms by (intro repo_parts_of_owner_repo)
  show ?thesis
    unfolding convert_github_path_to_raw_url_def path hash
    using at_in by (simp add: at rp del: append_assoc append.simps set_append)
qed

text \<open>
  With an explicit branch and no \<open>#\<close>, \<open>owner/repo@rest\<close>: no lookup is made; without a
  \<open>/\<close> in \<open>rest\<close> there is no file path, and otherwise \<open>rest\<close> is cut at its first \<open>/\<close>.
\<close>

lemma convert_branch_without_slash:
  assumes "owner \<noteq> []" and "repo \<noteq> []"
    and "CHR ''/'' \<notin> set owner" and "CHR ''@'' \<notin> set owner" and "CHR ''#'' \<notin> set owner"
    and "CHR ''/'' \<notin> set repo" and "CHR ''@'' \<notin> set repo" and "CHR ''#'' \<notin> set repo"
    and "CHR ''#'' \<notin> set branch" and "CHR ''/'' \<notin> set branch"
  shows "convert_github_path_to_raw_url env (owner @ ''/'' @ repo @ ''@'' @ branch) tr =
         (Inl (ValueError ''No file path specified''), tr)"
proof -
  let ?info = "owner @ ''/'' @ repo"
  let ?rp = "?info @ ''@'' @ branch"
  have path: "owner @ ''/'' @ repo @ ''@'' @ branch = ?rp" by simp
  have hash: "split1 CHR ''#'' ?rp = [?rp]"
    using assms by (intro split1_absent) simp
  have at_in: "CHR ''@'' \<in> set ?rp" by simp
  have "split1 CHR ''@'' (?info @ CHR ''@'' # branch) = [?info, branch]"
    using assms by (intro split1_first) simp
  then have at: "split1 CHR ''@'' ?rp = [?info, branch]" by simp
  have rp: "split_all CHR ''/'' (strip CHR ''/'' ?info) = [owner, repo]"
    using assms by (intro repo_parts_of_owner_repo)
  show ?thesis
    unfolding convert_github_path_to_raw_url_def path hash
    using at_in assms(10) by (simp add: at rp del: append_assoc append.simps set_append)
qed

section \<open>The resolver on every spelling of the owner/repository part\<close>

text \<open>
  The four routes through the resolver, for any text \<open>info\<close> before the first \<open>@\<close> or
  \<open>#\<close>: the branch is explicit or looked up, and the file path is explicit or cut from
  the branch string. \<open>info\<close> is only required to hold neither \<open>@\<close> nor \<open>#\<close>.
\<close>

lemma convert_at_hash:
  assumes "CHR ''#'' \<notin> set info" and "CHR ''@'' \<notin> set info" and "CHR ''#'' \<notin> set bs"
  shows "convert_github_path_to_raw_url env (info @ ''@'' @ bs @ ''#'' @ fp) tr =
         (if length (split_all CHR ''/'' (strip CHR ''/'' info)) \<noteq> 2
          then (Inl (ValueError ''Repository path must be in format: owner/repository''), tr)
          else if endswith fp ''.ipynb''
          then (Inr (''https://raw.githubusercontent.com/''
                     @ split_all CHR ''/'' (strip CHR ''/'' info) ! 0 @ ''/''
                     @ split_all CHR ''/'' (strip CHR ''/'' info) ! 1 @ ''/'' @ bs @ ''/'' @ fp), tr)
          else (Inl (ValueError ''Path must end with .ipynb''), tr))"
proof -
  let ?rp = "info @ ''@'' @ bs"
  have path: "info @ ''@'' @ bs @ ''#'' @ fp = ?rp @ CHR ''#'' # fp" by simp
  have hash: "split1 CHR ''#'' (?rp @ CHR ''#'' # fp) = [?rp, fp]"
    using assms by (intro split1_first) simp
  have at_in: "CHR ''@'' \<in> set ?rp" by simp
  have "split1 CHR ''@'' (info @ CHR ''@'' # bs) = [info, bs]"
    using assms by (intro split1_first) simp
  then have at: "split1 CHR ''@'' ?rp = [info, bs]" by simp
  show ?thesis
    unfolding convert_github_path_to_raw_url_def path hash
    using at_in by (simp add: at Let_def del: append_assoc append.simps set_append)
qed

lemma convert_at_only:
  assumes "CHR ''#'' \<notin> set info" and "CHR ''@'' \<notin> set info" and "CHR ''#'' \<notin> set bs"
  shows "convert_github_path_to_raw_url env (info @ ''@'' @ bs) tr =
         (if length (split_all CHR ''/'' (strip CHR ''/'' info)) \<noteq> 2
          then (Inl (ValueError ''Repository path must be in format: owner/repository''), tr)
          else if CHR ''/'' \<notin> set bs
          then (Inl (ValueError ''No file path specified''), tr)
          else if endswith (tl (dropWhile (\<lambda>x. x \<noteq> CHR ''/'') bs)) ''.ipynb''
          then (Inr (''https://raw.githubusercontent.com/''
                     @ split_all CHR ''/'' (strip CHR ''/'' info) ! 0 @ ''/''
                     @ split_all CHR ''/'' (strip CHR ''/'' info) ! 1 @ ''/''
                     @ takeWhile (\<lambda>x. x \<noteq> CHR ''/'') bs @ ''/''
                     @ tl (dropWhile (\<lambda>x. x \<noteq> CHR ''/'') bs)), tr)
          else (Inl (ValueError ''Path must end with .ipynb''), tr))"
proof -
  let ?rp = "info @ ''@'' @ bs"
  have hash: "split1 CHR ''#'' ?rp = [?rp]"
    using assms by (intro split1_absent) simp
  have at_in: "CHR ''@'' \<in> set ?rp" by simp
  have "split1 CHR ''@'' (info @ CHR ''@'' # bs) = [info, bs]"
    using assms by (intro split1_first) simp
  then have at: "split1 CHR ''@'' ?rp = [info, bs]" by simp
  have cut: "CHR ''/'' \<in> set bs \<Longrightarrow> split1 CHR ''/'' bs =
      [takeWhile (\<lambda>x. x \<noteq> CHR ''/'') bs, tl (dropWhile (\<lambda>x. x \<noteq> CHR ''/'') bs)]"
    by (simp add: split1_def)
  show ?thesis
    unfolding convert_github_path_to_raw_url_def hash
    using at_in by (simp add: at cut Let_def del: append_assoc append.simps set_append)
qed

lemma convert_hash_only:
  assumes "CHR ''#'' \<notin> set info" and "CHR ''@'' \<notin> set info"
  shows "convert_github_path_to_raw_url env (info @ ''#'' @ fp) tr =
         (if length (split_all CHR ''/'' (strip CHR ''/'' info)) \<noteq> 2
          then (Inl (ValueError ''Repository path must be in format: owner/repository''), tr)
          else case get_default_branch env (split_all CHR ''/'' (strip CHR ''/'' info) ! 0)
                      (split_all CHR ''/'' (strip CHR ''/'' info) ! 1) tr of
                 (Inl e, tr1) \<Rightarrow> (Inl e, tr1)
               | (Inr bs, tr1) \<Rightarrow>
                   (if endswith fp ''.ipynb''
                    then (Inr (''https://raw.githubusercontent.com/''
                               @ split_all CHR ''/'' (strip CHR ''/'' info) ! 0 @ ''/''
                               @ split_all CHR ''/'' (strip CHR ''/'' info) ! 1 @ ''/''
                               @ bs @ ''/'' @ fp), tr1)
                    else (Inl (ValueError ''Path must end with .ipynb''), tr1)))"
proof -
  have path: "info @ ''#'' @ fp = info @ CHR ''#'' # fp" by simp
  have hash: "split1 CHR ''#'' (info @ CHR ''#'' # fp) = [info, fp]"
    using assms by (intro split1_first) simp
  show ?thesis
    unfolding convert_github_path_to_raw_url_def path hash
    using assms(2)
    by (simp add: Let_def split: prod.splits sum.splits del: append_assoc append.simps set_append)
qed

lemma convert_plain:
  assumes "CHR ''#'' \<notin> set info" and "CHR ''@'' \<notin> set info"
  shows "convert_github_path_to_raw_url env info tr =
         (if length (split_all CHR ''/'' (strip CHR ''/'' info)) \<noteq> 2
          then (Inl (ValueError ''Repository path must be in format: owner/repository''), tr)
          else case get_default_branch env (split_all CHR ''/'' (strip CHR ''/'' info) ! 0)
                      (split_all CHR ''/'' (strip CHR ''/'' info) ! 1) tr of
                 (Inl e, tr1) \<Rightarrow> (Inl e, tr1)
               | (Inr bs, tr1) \<Rightarrow>
                   (if CHR ''/'' \<notin> set bs
                    then (Inl (ValueError ''No file path specified''), tr1)
                    else if endswith (tl (dropWhile (\<lambda>x. x \<noteq> CHR ''/'') bs)) ''.ipynb''
                    then (Inr (''https://raw.githubusercontent.com/''
                               @ split_all CHR ''/'' (strip CHR ''/'' info) ! 0 @ ''/''
                               @ split_all CHR ''/'' (strip CHR ''/'' info) ! 1 @ ''/''
                               @ takeWhile (\<lambda>x. x \<noteq> CHR ''/'') bs @ ''/''
                               @ tl (dropWhile (\<lambda>x. x \<noteq> CHR ''/'') bs)), tr1)
                    else (Inl (ValueError ''Path must end with .ipynb''), tr1)))"
proof -
  have hash: "split1 CHR ''#'' info = [info]"
    using assms by (intro split1_absent)
  have cut: "CHR ''/'' \<in> set bs \<Longrightarrow> split1 CHR ''/'' bs =
      [takeWhile (\<lambda>x. x \<noteq> CHR ''/'') bs, tl (dropWhile (\<lambda>x. x \<noteq> CHR ''/'') bs)]" for bs
    by (simp add: split1_def)
  show ?thesis
    unfolding convert_github_path_to_raw_url_def hash
    using assms(2)
    by (simp add: cut Let_def split: prod.splits sum.splits del: append_assoc append.simps set_append)
qed

section \<open>Claims about the resolver\<close>

text \<open>
  Claim C1 states that \<open>owner/repo/file.ipynb\<close>, with no \<open>@\<close> and no \<open>#\<close>, makes one
  default-branch lookup and resolves to the raw URL on the default branch, as the
  docstring and the first case of \<^verbatim>\<open>test_convert_github_path_to_raw_url\<close> say. The
  code does not: the whole input is the owner/repository part, it has three pieces, and
  the resolver raises the format error without any lookup.
\<close>

theorem owner_repo_file_is_rejected:
  "convert_github_path_to_raw_url env ''owner/repo/file.ipynb'' tr =
     (Inl (ValueError ''Repository path must be in format: owner/repository''), tr)"
  by (simp add: convert_github_path_to_raw_url_def split1_def strip_def split_all.simps)

text \<open>
  Claim C2: an input with no \<open>@\<close> and no \<open>#\<close> whose slash-trimmed form splits on \<open>/\<close>
  into more than two pieces fails with the owner/repository format error; the extra
  pieces are not taken as a file path, and no lookup is made (the trace is unchanged).
\<close>

theorem extra_segments_format_error:
  assumes "CHR ''@'' \<notin> set path" and "CHR ''#'' \<notin> set path"
    and "2 < length (split_all CHR ''/'' (strip CHR ''/'' path))"
  shows "convert_github_path_to_raw_url env path tr =
         (Inl (ValueError ''Repository path must be in format: owner/repository''), tr)"
  using assms by (simp add: convert_github_path_to_raw_url_def split1_absent)

theorem extra_segments_format_error_witness:
  "convert_github_path_to_raw_url env_main ''owner/repo/path/notebook.ipynb'' [] =
     (Inl (ValueError ''Repository path must be in format: owner/repository''), [])"
  using extra_segments_format_error [of "''owner/repo/path/notebook.ipynb''" env_main "[]"]
  by (simp add: strip_def split_all.simps)

text \<open>
  Claim C3 states that \<open>owner/repo\<close>, with no \<open>@\<close> and no \<open>#\<close>, fails with an
  owner/repository format error, as \<^verbatim>\<open>test_convert_github_path_to_raw_url_errors\<close>
  expects without any network access. The code accepts the two pieces, looks the default
  branch up, and only then fails, with the missing-file-path error when the default
  branch is \<open>main\<close>.
\<close>

theorem owner_repo_alone_looks_up_branch:
  "convert_github_path_to_raw_url env_main ''owner/repo'' [] =
     (Inl (ValueError ''No file path specified''),
      [ApiGet ''https://api.github.com/repos/owner/repo''])"
  by (simp add: convert_github_path_to_raw_url_def get_default_branch_def env_main_def
      split1_def strip_def split_all.simps)

text \<open>
  Claim C4: \<open>owner/repo@branch#path\<close> with a path ending in \<open>.ipynb\<close> resolves to
  \<open>https://raw.githubusercontent.com/owner/repo/branch/path\<close> with the branch and the
  path as given, and the trace is unchanged, so no lookup is made. The branch may hold
  \<open>/\<close> and \<open>@\<close> and the path may hold \<open>/\<close>, \<open>@\<close> and \<open>#\<close>: only the first \<open>#\<close> and the
  first \<open>@\<close> split.
\<close>

theorem explicit_branch_and_path_url:
  assumes "owner \<noteq> []" and "repo \<noteq> []"
    and "CHR ''/'' \<notin> set owner" and "CHR ''@'' \<notin> set owner" and "CHR ''#'' \<notin> set owner"
    and "CHR ''/'' \<notin> set repo" and "CHR ''@'' \<notin> set repo" and "CHR ''#'' \<notin> set repo"
    and "CHR ''#'' \<notin> set branch"
    and "endswith file_path ''.ipynb''"
  shows "convert_github_path_to_raw_url env
           (owner @ ''/'' @ repo @ ''@'' @ branch @ ''#'' @ file_path) tr =
         (Inr (''https://raw.githubusercontent.com/'' @ owner @ ''/'' @ repo @ ''/''
               @ branch @ ''/'' @ file_path), tr)"
  using convert_branch_and_path [OF assms(1-9), where file_path = file_path and env = env and tr = tr] assms(10) by simp

theorem explicit_branch_and_path_url_witness:
  "convert_github_path_to_raw_url env_main
     ''owner/repo@feature/branch@2#path/to#a@b/notebook.ipynb'' [] =
   (Inr ''https://raw.githubusercontent.com/owner/repo/feature/branch@2/path/to#a@b/notebook.ipynb'',
    [])"
  using explicit_branch_and_path_url [of "''owner''" "''repo''" "''feature/branch@2''"
      "''path/to#a@b/notebook.ipynb''" env_main "[]"]
  by (simp add: endswith_def suffix_to_prefix)

text \<open>
  Claim C5, as amended: for an input \<open>info@rest\<close> with an explicit \<open>@\<close>, no \<open>#\<close>, and a
  branch string \<open>rest\<close> (everything after the first \<open>@\<close>) that holds a \<open>/\<close>. When \<open>info\<close>,
  trimmed of leading and trailing slashes, does not split on \<open>/\<close> into exactly two
  pieces, the resolver fails with the owner/repository format error. When it splits into
  \<open>owner\<close> and \<open>repo\<close>, the branch is everything before the first \<open>/\<close> of \<open>rest\<close> and the
  file path is everything after it; the URL is built from these two pieces when the file
  path ends in \<open>.ipynb\<close>, and the suffix error is raised otherwise. No lookup is made.
\<close>

theorem branch_string_split_at_first_slash:
  assumes "CHR ''#'' \<notin> set info" and "CHR ''@'' \<notin> set info"
    and "CHR ''#'' \<notin> set rest" and "CHR ''/'' \<in> set rest"
    and "branch = takeWhile (\<lambda>x. x \<noteq> CHR ''/'') rest"
    and "file_path = tl (dropWhile (\<lambda>x. x \<noteq> CHR ''/'') rest)"
  shows "(length (split_all CHR ''/'' (strip CHR ''/'' info)) \<noteq> 2 \<longrightarrow>
            convert_github_path_to_raw_url env (info @ ''@'' @ rest) tr =
            (Inl (ValueError ''Repository path must be in format: owner/repository''), tr))
       \<and> (split_all CHR ''/'' (strip CHR ''/'' info) = [owner, repo] \<longrightarrow>
            convert_github_path_to_raw_url env (info @ ''@'' @ rest) tr =
            (if endswith file_path ''.ipynb''
             then (Inr (''https://raw.githubusercontent.com/'' @ owner @ ''/'' @ repo @ ''/''
                        @ branch @ ''/'' @ file_path), tr)
             else (Inl (ValueError ''Path must end with .ipynb''), tr)))"
proof (intro conjI impI)
  assume "length (split_all CHR ''/'' (strip CHR ''/'' info)) \<noteq> 2"
  with convert_at_only [OF assms(1-3), where env = env and tr = tr]
  show "convert_github_path_to_raw_url env (info @ ''@'' @ rest) tr =
      (Inl (ValueError ''Repository path must be in format: owner/repository''), tr)"
    by simp
next
  assume "split_all CHR ''/'' (strip CHR ''/'' info) = [owner, repo]"
  with convert_at_only [OF assms(1-3), where env = env and tr = tr] assms(4-6)
  show "convert_github_path_to_raw_url env (info @ ''@'' @ rest) tr =
      (if endswith file_path ''.ipynb''
       then (Inr (''https://raw.githubusercontent.com/'' @ owner @ ''/'' @ repo @ ''/''
                  @ branch @ ''/'' @ file_path), tr)
       else (Inl (ValueError ''Path must end with .ipynb''), tr))"
    by simp
qed

theorem branch_string_split_at_first_slash_witness:
  "convert_github_path_to_raw_url env_main ''owner/repo@dev/docs/intro/notebook.ipynb'' [] =
     (Inr ''https://raw.githubusercontent.com/owner/repo/dev/docs/intro/notebook.ipynb'', [])
   \<and> convert_github_path_to_raw_url env_main ''/owner/repo/@dev/docs/readme.txt'' [] =
     (Inl (ValueError ''Path must end with .ipynb''), [])
   \<and> convert_github_path_to_raw_url env_main ''a/b/c@dev/notebook.ipynb'' [] =
     (Inl (ValueError ''Repository path must be in format: owner/repository''), [])"
proof -
  have p1: "split_all CHR ''/'' (strip CHR ''/'' ''owner/repo'') = [''owner'', ''repo'']"
    by (simp add: strip_def split_all.simps)
  have p2: "split_all CHR ''/'' (strip CHR ''/'' ''/owner/repo/'') = [''owner'', ''repo'']"
    by (simp add: strip_def split_all.simps)
  have p3: "length (split_all CHR ''/'' (strip CHR ''/'' ''a/b/c'')) \<noteq> 2"
    by (simp add: strip_def split_all.simps)
  have a: "convert_github_path_to_raw_url env_main ''owner/repo@dev/docs/intro/notebook.ipynb'' [] =
     (Inr ''https://raw.githubusercontent.com/owner/repo/dev/docs/intro/notebook.ipynb'', [])"
    using p1 branch_string_split_at_first_slash [where info = "''owner/repo''"
        and rest = "''dev/docs/intro/notebook.ipynb''" and branch = "''dev''"
        and file_path = "''docs/intro/notebook.ipynb''" and owner = "''owner''"
        and repo = "''repo''" and env = env_main and tr = "[]"]
    by (simp add: endswith_def suffix_to_prefix)
  have b: "convert_github_path_to_raw_url env_main ''/owner/repo/@dev/docs/readme.txt'' [] =
     (Inl (ValueError ''Path must end with .ipynb''), [])"
    using p2 branch_string_split_at_first_slash [where info = "''/owner/repo/''"
        and rest = "''dev/docs/readme.txt''" and branch = "''dev''"
        and file_path = "''docs/readme.txt''" and owner = "''owner''"
        and repo = "''repo''" and env = env_main and tr = "[]"]
    by (simp add: endswith_def suffix_to_prefix)
  have c: "convert_github_path_to_raw_url env_main ''a/b/c@dev/notebook.ipynb'' [] =
     (Inl (ValueError ''Repository path must be in format: owner/repository''), [])"
    using p3 branch_string_split_at_first_slash [where info = "''a/b/c''"
        and rest = "''dev/notebook.ipynb''" and branch = "''dev''"
        and file_path = "''notebook.ipynb''" and env = env_main and tr = "[]"]
    by simp
  from a b c show ?thesis by blast
qed

theorem branch_string_split_counterexample:
  "convert_github_path_to_raw_url env_main ''owner/repo@dev/docs/readme.txt'' [] =
     (Inl (ValueError ''Path must end with .ipynb''), [])
   \<and> convert_github_path_to_raw_url env_main ''invalid@branch/notebook.ipynb'' [] =
     (Inl (ValueError ''Repository path must be in format: owner/repository''), [])"
  by (simp add: convert_github_path_to_raw_url_def split1_def strip_def split_all.simps
      endswith_def suffix_to_prefix)

text \<open>
  Claim C6: \<open>owner/repo@branch\<close> with no \<open>#\<close> and no \<open>/\<close> in the branch fails with the
  error "No file path specified"; no URL is produced and no lookup is made.
\<close>

theorem branch_without_path_fails:
  assumes "owner \<noteq> []" and "repo \<noteq> []"
    and "CHR ''/'' \<notin> set owner" and "CHR ''@'' \<notin> set owner" and "CHR ''#'' \<notin> set owner"
    and "CHR ''/'' \<notin> set repo" and "CHR ''@'' \<notin> set repo" and "CHR ''#'' \<notin> set repo"
    and "CHR ''#'' \<notin> set branch" and "CHR ''/'' \<notin> set branch"
  shows "convert_github_path_to_raw_url env (owner @ ''/'' @ repo @ ''@'' @ branch) tr =
         (Inl (ValueError ''No file path specified''), tr)"
  using assms by (rule convert_branch_without_slash)

theorem branch_without_path_fails_witness:
  "convert_github_path_to_raw_url env_main ''owner/repo@branch'' [] =
     (Inl (ValueError ''No file path specified''), [])"
  using branch_without_path_fails [of "''owner''" "''repo''" "''branch''" env_main "[]"]
  by simp

text \<open>
  Claim C7: a shorthand whose resolved file path does not end in \<open>.ipynb\<close> fails with the
  suffix error "Path must end with .ipynb", and the check is made on the resolved file
  path, after the fallback split. The statement covers every route to a resolved file
  path. \<open>repo_part\<close> is the input up to its first \<open>#\<close> and \<open>info\<close> is \<open>repo_part\<close> up to
  its first \<open>@\<close>, which splits into \<open>owner\<close> and \<open>repo\<close>. The branch string \<open>bs\<close> is
  either what follows the first \<open>@\<close> or the default branch that the lookup returned. The
  resolved file path \<open>fp\<close> is either what follows the first \<open>#\<close> or, without a \<open>#\<close>,
  what follows the first \<open>/\<close> of the branch string.
\<close>

theorem wrong_suffix_fails:
  assumes "split_all CHR ''/'' (strip CHR ''/'' info) = [owner, repo]"
    and "CHR ''#'' \<notin> set info" and "CHR ''@'' \<notin> set info"
    and "repo_part = info @ ''@'' @ bs \<and> CHR ''#'' \<notin> set bs \<and> tr1 = tr
         \<or> repo_part = info \<and> get_default_branch env owner repo tr = (Inr bs, tr1)"
    and "path = repo_part @ ''#'' @ fp
         \<or> path = repo_part \<and> CHR ''/'' \<in> set bs \<and> fp = tl (dropWhile (\<lambda>x. x \<noteq> CHR ''/'') bs)"
    and "\<not> endswith fp ''.ipynb''"
  shows "convert_github_path_to_raw_url env path tr =
         (Inl (ValueError ''Path must end with .ipynb''), tr1)"
proof -
  note rp = assms(1)
  from assms(4) show ?thesis
  proof (elim disjE conjE)
    assume given: "repo_part = info @ ''@'' @ bs" "CHR ''#'' \<notin> set bs" "tr1 = tr"
    from assms(5) show ?thesis
    proof (elim disjE conjE)
      assume "path = repo_part @ ''#'' @ fp"
      then have "path = info @ ''@'' @ bs @ ''#'' @ fp" by (simp add: given(1))
      with convert_at_hash [OF assms(2,3) given(2), where env = env and tr = tr and fp = fp]
        assms(6) given(3) show ?thesis by (simp add: rp)
    next
      assume "path = repo_part" "CHR ''/'' \<in> set bs"
        "fp = tl (dropWhile (\<lambda>x. x \<noteq> CHR ''/'') bs)"
      with convert_at_only [OF assms(2,3) given(2), where env = env and tr = tr]
        assms(6) given(1,3) show ?thesis by (simp add: rp)
    qed
  next
    assume looked: "repo_part = info" "get_default_branch env owner repo tr = (Inr bs, tr1)"
    from assms(5) show ?thesis
    proof (elim disjE conjE)
      assume "path = repo_part @ ''#'' @ fp"
      with convert_hash_only [OF assms(2,3), where env = env and tr = tr and fp = fp]
        assms(6) looked show ?thesis by (simp add: rp)
    next
      assume "path = repo_part" "CHR ''/'' \<in> set bs"
        "fp = tl (dropWhile (\<lambda>x. x \<noteq> CHR ''/'') bs)"
      with convert_plain [OF assms(2,3), where env = env and tr = tr]
        assms(6) looked show ?thesis by (simp add: rp)
    qed
  qed
qed

theorem wrong_suffix_fails_witness:
  "convert_github_path_to_raw_url env_main ''owner/repo@branch#path/notebook.txt'' [] =
     (Inl (ValueError ''Path must end with .ipynb''), [])
   \<and> convert_github_path_to_raw_url env_main ''owner/repo@branch/path/notebook.txt'' [] =
     (Inl (ValueError ''Path must end with .ipynb''), [])
   \<and> convert_github_path_to_raw_url env_main ''owner/repo#path/notebook.txt'' [] =
     (Inl (ValueError ''Path must end with .ipynb''),
      [ApiGet ''https://api.github.com/repos/owner/repo''])
   \<and> convert_github_path_to_raw_url env_release ''owner/repo'' [] =
     (Inl (ValueError ''Path must end with .ipynb''),
      [ApiGet ''https://api.github.com/repos/owner/repo''])"
proof -
  have rp: "split_all CHR ''/'' (strip CHR ''/'' ''owner/repo'') = [''owner'', ''repo'']"
    by (simp add: strip_def split_all.simps)
  have look: "get_default_branch env_main ''owner'' ''repo'' [] =
      (Inr ''main'', [ApiGet ''https://api.github.com/repos/owner/repo''])"
    by (simp add: get_default_branch_def env_main_def)
  have look': "get_default_branch env_release ''owner'' ''repo'' [] =
      (Inr ''release/1.0'', [ApiGet ''https://api.github.com/repos/owner/repo''])"
    by (simp add: get_default_branch_def env_main_def env_release_def)
  have bad: "\<not> endswith ''path/notebook.txt'' ''.ipynb''"
    by (simp add: endswith_def suffix_to_prefix)
  have one: "\<not> endswith ''1.0'' ''.ipynb''"
    by (simp add: endswith_def suffix_to_prefix)
  have a: "convert_github_path_to_raw_url env_main ''owner/repo@branch#path/notebook.txt'' [] =
     (Inl (ValueError ''Path must end with .ipynb''), [])"
    by (rule wrong_suffix_fails [OF rp _ _ _ _ bad, where bs = "''branch''"
          and repo_part = "''owner/repo@branch''"]) simp_all
  have b: "convert_github_path_to_raw_url env_main ''owner/repo@branch/path/notebook.txt'' [] =
     (Inl (ValueError ''Path must end with .ipynb''), [])"
    by (rule wrong_suffix_fails [OF rp _ _ _ _ bad, where bs = "''branch/path/notebook.txt''"
          and repo_part = "''owner/repo@branch/path/notebook.txt''"]) simp_all
  have c: "convert_github_path_to_raw_url env_main ''owner/repo#path/notebook.txt'' [] =
     (Inl (ValueError ''Path must end with .ipynb''),
      [ApiGet ''https://api.github.com/repos/owner/repo''])"
    by (rule wrong_suffix_fails [OF rp _ _ _ _ bad, where bs = "''main''"
          and repo_part = "''owner/repo''"]) (simp_all add: look)
  have d: "convert_github_path_to_raw_url env_release ''owner/repo'' [] =
     (Inl (ValueError ''Path must end with .ipynb''),
      [ApiGet ''https://api.github.com/repos/owner/repo''])"
    by (rule wrong_suffix_fails [OF rp _ _ _ _ one, where bs = "''release/1.0''"
          and repo_part = "''owner/repo''"]) (simp_all add: look')
  from a b c d show ?thesis by blast
qed

section \<open>Claims about the default branch lookup\<close>

text \<open>
  Claim C8: the lookup makes one request to the metadata endpoint of \<open>owner/repo\<close>. When
  the response has a \<open>default_branch\<close> field, that field is returned; when the request
  fails with HTTP status 404, the lookup fails with a \<open>ValueError\<close> whose message names
  \<open>owner/repo\<close>; any other exception is raised unchanged.
\<close>

theorem get_default_branch_outcomes:
  "(urlopen_json env (''https://api.github.com/repos/'' @ owner @ ''/'' @ repo) = Inr data
      \<and> data ''default_branch'' = Some b \<longrightarrow>
        get_default_branch env owner repo tr =
          (Inr b, tr @ [ApiGet (''https://api.github.com/repos/'' @ owner @ ''/'' @ repo)]))
   \<and> (urlopen_json env (''https://api.github.com/repos/'' @ owner @ ''/'' @ repo)
        = Inl (HTTPError 404 msg) \<longrightarrow>
        get_default_branch env owner repo tr =
          (Inl (ValueError (''Repository '' @ owner @ ''/'' @ repo @ '' not found'')),
           tr @ [ApiGet (''https://api.github.com/repos/'' @ owner @ ''/'' @ repo)]))
   \<and> (urlopen_json env (''https://api.github.com/repos/'' @ owner @ ''/'' @ repo) = Inl e
      \<and> (\<forall>m. e \<noteq> HTTPError 404 m) \<longrightarrow>
        get_default_branch env owner repo tr =
          (Inl e, tr @ [ApiGet (''https://api.github.com/repos/'' @ owner @ ''/'' @ repo)]))"
  by (cases e) (auto simp: get_default_branch_def)

theorem get_default_branch_outcomes_witness:
  "get_default_branch env_main ''owner'' ''repo'' [] =
     (Inr ''main'', [ApiGet ''https://api.github.com/repos/owner/repo''])
   \<and> get_default_branch env_404 ''owner'' ''repo'' [] =
     (Inl (ValueError ''Repository owner/repo not found''),
      [ApiGet ''https://api.github.com/repos/owner/repo''])
   \<and> get_default_branch env_500 ''owner'' ''repo'' [] =
     (Inl (HTTPError 500 ''Server Error''),
      [ApiGet ''https://api.github.com/repos/owner/repo''])"
  using get_default_branch_outcomes [where env = env_main and owner = "''owner''"
      and repo = "''repo''" and data = "[''default_branch'' \<mapsto> ''main'']" and b = "''main''"
      and tr = "[]"]
    get_default_branch_outcomes [where env = env_404 and owner = "''owner''"
      and repo = "''repo''" and tr = "[]" and msg = "''Not Found''"]
    get_default_branch_outcomes [where env = env_500 and owner = "''owner''"
      and repo = "''repo''" and tr = "[]" and e = "HTTPError 500 ''Server Error''"]
  by (simp add: env_main_def env_404_def env_500_def)

section \<open>Claims about the orchestrator\<close>

text \<open>
  Claim C9, as amended. A reference that starts with \<open>http://\<close> or \<open>https://\<close> is the URL
  itself and the resolver is not called; any other reference is the URL that the
  resolver returns. Let \<open>p\<close> be the path component of that URL. When the name of \<open>p\<close> does
  not end in \<open>.ipynb\<close>, the call fails with the suffix error and nothing is downloaded or
  started. Otherwise the download is requested once, to the output directory (the
  current directory when none is given) joined with that name. When the download raises,
  that error is the result and the viewer is not started. When the download returns,
  the viewer is started once with \<open>jupyter notebook\<close>, the downloaded path and the
  pass-through arguments in their order, and the call fails exactly when the viewer
  cannot be started or exits with a non-zero code.
\<close>

theorem orchestrator_downloads_and_launches:
  assumes "(startswith ref ''http://'' \<or> startswith ref ''https://'') \<and> url = ref \<and> tr1 = tr
           \<or> \<not> (startswith ref ''http://'' \<or> startswith ref ''https://'')
             \<and> convert_github_path_to_raw_url env ref tr = (Inr url, tr1)"
    and "urlparse_path (netloc_check env) url = Inr p"
    and "target = joinpath (case output_dir of None \<Rightarrow> cwd env | Some d \<Rightarrow> d) (path_name (Path p))"
    and "cmd = [''jupyter'', ''notebook'', path_str target]
               @ (case jupyter_args of None \<Rightarrow> [] | Some a \<Rightarrow> a)"
  shows "open_notebook_from_url env ref output_dir jupyter_args tr =
         (if \<not> endswith (path_name (Path p)) ''.ipynb''
          then (Inl (ValueError ''URL must point to a Jupyter notebook (.ipynb file)''), tr1)
          else case urlretrieve env url target of
                 Some e \<Rightarrow>
                   (Inl e, tr1 @ [Print (''Downloading notebook from '' @ url), Retrieve url target])
               | None \<Rightarrow>
                   (case run env cmd of
                      Inl e \<Rightarrow> Inl e
                    | Inr code \<Rightarrow> if code \<noteq> 0 then Inl (CalledProcessError code cmd) else Inr (),
                    tr1 @ [Print (''Downloading notebook from '' @ url), Retrieve url target,
                           Print (''Opening notebook '' @ path_str target), Run cmd]))"
proof -
  have resolved:
    "(if \<not> (startswith ref ''http://'' \<or> startswith ref ''https://'')
      then convert_github_path_to_raw_url env ref tr else (Inr ref, tr)) = (Inr url, tr1)"
    using assms(1) by auto
  show ?thesis
    unfolding open_notebook_from_url_def resolved
    using assms(2-4) by (simp add: Let_def split: sum.splits option.splits)
qed

theorem orchestrator_downloads_and_launches_witness:
  "open_notebook_from_url env_main ''https://example.com/notebook.ipynb'' None
     (Some [''--port'', ''8888'']) [] =
   (Inr (),
    [Print ''Downloading notebook from https://example.com/notebook.ipynb'',
     Retrieve ''https://example.com/notebook.ipynb''
       \<lparr>root = ''/'', parts = [''home'', ''user'', ''notebook.ipynb'']\<rparr>,
     Print ''Opening notebook /home/user/notebook.ipynb'',
     Run [''jupyter'', ''notebook'', ''/home/user/notebook.ipynb'', ''--port'', ''8888'']])
   \<and> open_notebook_from_url env_main ''owner/repo@branch#path/notebook.ipynb''
     (Some \<lparr>root = [], parts = [''out'']\<rparr>) None [] =
   (Inr (),
    [Print ''Downloading notebook from https://raw.githubusercontent.com/owner/repo/branch/path/notebook.ipynb'',
     Retrieve ''https://raw.githubusercontent.com/owner/repo/branch/path/notebook.ipynb''
       \<lparr>root = [], parts = [''out'', ''notebook.ipynb'']\<rparr>,
     Print ''Opening notebook out/notebook.ipynb'',
     Run [''jupyter'', ''notebook'', ''out/notebook.ipynb'']])"
proof -
  let ?u1 = "''https://example.com/notebook.ipynb''"
  let ?u2 = "''https://raw.githubusercontent.com/owner/repo/branch/path/notebook.ipynb''"
  let ?ref2 = "''owner/repo@branch#path/notebook.ipynb''"
  let ?out = "\<lparr>root = [], parts = [''out'']\<rparr>"
  have direct: "urlparse_path (netloc_check env_main) ?u1 = Inr ''/notebook.ipynb''"
    by (simp add: urlparse_eval env_main_def)
  have raw: "urlparse_path (netloc_check env_main) ?u2 = Inr ''/owner/repo/branch/path/notebook.ipynb''"
    by (simp add: urlparse_eval env_main_def)
  have conv: "convert_github_path_to_raw_url env_main ?ref2 [] = (Inr ?u2, [])"
    by (simp add: convert_github_path_to_raw_url_def split1_def strip_def split_all.simps
        endswith_def suffix_to_prefix)
  have name1: "path_name (Path ''/notebook.ipynb'') = ''notebook.ipynb''"
    by (simp add: path_eval)
  have name2: "path_name (Path ''/owner/repo/branch/path/notebook.ipynb'') = ''notebook.ipynb''"
    by (simp add: path_eval)
  have res1: "(startswith ?u1 ''http://'' \<or> startswith ?u1 ''https://'') \<and> ?u1 = ?u1 \<and> [] = []
      \<or> \<not> (startswith ?u1 ''http://'' \<or> startswith ?u1 ''https://'')
        \<and> convert_github_path_to_raw_url env_main ?u1 [] = (Inr ?u1, [])"
    by (simp add: startswith_def)
  have res2: "(startswith ?ref2 ''http://'' \<or> startswith ?ref2 ''https://'') \<and> ?u2 = ?ref2 \<and> [] = []
      \<or> \<not> (startswith ?ref2 ''http://'' \<or> startswith ?ref2 ''https://'')
        \<and> convert_github_path_to_raw_url env_main ?ref2 [] = (Inr ?u2, [])"
    using conv by (simp add: startswith_def)
  have suf1: "endswith (path_name (Path ''/notebook.ipynb'')) ''.ipynb''"
    by (simp add: name1 endswith_def suffix_to_prefix)
  have suf2: "endswith (path_name (Path ''/owner/repo/branch/path/notebook.ipynb'')) ''.ipynb''"
    by (simp add: name2 endswith_def suffix_to_prefix)
  have got: "urlretrieve env_main u t = None" for u t
    by (simp add: env_main_def)
  have ran: "run env_main c = Inr 0" for c
    by (simp add: env_main_def)
  have part: "Path ''notebook.ipynb'' = \<lparr>root = [], parts = [''notebook.ipynb'']\<rparr>"
    by (simp add: Path_def split_all.simps)
  have join1: "joinpath (cwd env_main) ''notebook.ipynb'' =
      \<lparr>root = ''/'', parts = [''home'', ''user'', ''notebook.ipynb'']\<rparr>"
    by (simp add: joinpath_def part env_main_def)
  have join2: "joinpath ?out ''notebook.ipynb'' = \<lparr>root = [], parts = [''out'', ''notebook.ipynb'']\<rparr>"
    by (simp add: joinpath_def part)
  have str1: "path_str \<lparr>root = ''/'', parts = [''home'', ''user'', ''notebook.ipynb'']\<rparr> =
      ''/home/user/notebook.ipynb''"
    by (simp add: path_str_def)
  have str2: "path_str \<lparr>root = [], parts = [''out'', ''notebook.ipynb'']\<rparr> = ''out/notebook.ipynb''"
    by (simp add: path_str_def)
  have a: "open_notebook_from_url env_main ?u1 None (Some [''--port'', ''8888'']) [] =
   (Inr (),
    [Print ''Downloading notebook from https://example.com/notebook.ipynb'',
     Retrieve ?u1 \<lparr>root = ''/'', parts = [''home'', ''user'', ''notebook.ipynb'']\<rparr>,
     Print ''Opening notebook /home/user/notebook.ipynb'',
     Run [''jupyter'', ''notebook'', ''/home/user/notebook.ipynb'', ''--port'', ''8888'']])"
    using orchestrator_downloads_and_launches [OF res1 direct refl refl,
        where output_dir = None and jupyter_args = "Some [''--port'', ''8888'']"]
    using suf1 by (simp add: name1 join1 str1 ran got)
  have b: "open_notebook_from_url env_main ?ref2 (Some ?out) None [] =
   (Inr (),
    [Print ''Downloading notebook from https://raw.githubusercontent.com/owner/repo/branch/path/notebook.ipynb'',
     Retrieve ?u2 \<lparr>root = [], parts = [''out'', ''notebook.ipynb'']\<rparr>,
     Print ''Opening notebook out/notebook.ipynb'',
     Run [''jupyter'', ''notebook'', ''out/notebook.ipynb'']])"
    using orchestrator_downloads_and_launches [OF res2 raw refl refl,
        where output_dir = "Some ?out" and jupyter_args = None]
    using suf2 by (simp add: name2 join2 str2 ran got)
  from a b show ?thesis by (rule conjI)
qed

theorem orchestrator_counterexample:
  "open_notebook_from_url env_main ''https://example.com/file.txt'' None None [] =
     (Inl (ValueError ''URL must point to a Jupyter notebook (.ipynb file)''), [])
   \<and> open_notebook_from_url env_offline ''https://example.com/notebook.ipynb'' None None [] =
     (Inl (OtherError ''URLError''),
      [Print ''Downloading notebook from https://example.com/notebook.ipynb'',
       Retrieve ''https://example.com/notebook.ipynb''
         \<lparr>root = ''/'', parts = [''home'', ''user'', ''notebook.ipynb'']\<rparr>])"
  by (simp add: open_notebook_from_url_def urlparse_eval path_eval startswith_def endswith_def
      suffix_to_prefix env_main_def env_offline_def Let_def)

section \<open>The file name of a resolved URL\<close>











end
